theory Spec2Isabelle
  imports Complex_Main "HOL-Library.AList" "HOL-Library.Word"
begin

section \<open>Common errors of the blockchain package\<close>

text \<open>
  The package-level error values of \<^verbatim>\<open>blockchain.go\<close>, together with the errors that the
  clients build on the spot with \<^verbatim>\<open>errors.New\<close> and \<^verbatim>\<open>fmt.Errorf\<close>; for the latter the
  message prefix (the text before the wrapped cause) is kept. A run-time panic of the Go
  code is the value \<open>Panic\<close>.
\<close>

datatype error =
    ErrInvalidAddress
  | ErrInsufficientBalance
  | ErrTransactionFailed
  | ErrNetworkUnavailable
  | ErrInvalidTransaction
  | ErrMsg string
  | Panic string

section \<open>BlockchainClientFactory: the registry of clients\<close>

text \<open>
  \<^verbatim>\<open>clients map[string]BlockchainClient\<close> is modelled as an association list that is
  read with \<open>map_of\<close> and written with \<open>AList.update\<close> (one entry per key, as a Go map).
  Go leaves the iteration order of a map unspecified; the list order stands for one such
  order, and the properties below speak about the set of keys only.
\<close>

record 'c BlockchainClientFactory =
  clients :: "(string \<times> 'c) list"

definition NewBlockchainClientFactory :: "'c BlockchainClientFactory" where
  "NewBlockchainClientFactory = \<lparr>clients = []\<rparr>"

definition RegisterClient ::
  "'c BlockchainClientFactory \<Rightarrow> string \<Rightarrow> 'c \<Rightarrow> 'c BlockchainClientFactory" where
  "RegisterClient f currency client = f\<lparr>clients := AList.update currency client (clients f)\<rparr>"

definition GetClient :: "'c BlockchainClientFactory \<Rightarrow> string \<Rightarrow> error + 'c" where
  "GetClient f currency =
     (case map_of (clients f) currency of
        None \<Rightarrow> Inl (ErrMsg (''blockchain client not found for currency: '' @ currency))
      | Some client \<Rightarrow> Inr client)"

definition GetSupportedCurrencies :: "'c BlockchainClientFactory \<Rightarrow> string list" where
  "GetSupportedCurrencies f = map fst (clients f)"

text \<open>
  A factory state is what a sequence of \<open>RegisterClient\<close> calls makes of the factory
  returned by \<open>NewBlockchainClientFactory\<close>.
\<close>

fun register_all ::
  "'c BlockchainClientFactory \<Rightarrow> (string \<times> 'c) list \<Rightarrow> 'c BlockchainClientFactory" where
  "register_all f [] = f"
| "register_all f ((currency, client) # rest) = register_all (RegisterClient f currency client) rest"

definition factory_after :: "(string \<times> 'c) list \<Rightarrow> 'c BlockchainClientFactory" where
  "factory_after calls = register_all NewBlockchainClientFactory calls"

section \<open>float64 arithmetic\<close>

text \<open>
  The clients take and compute amounts as Go \<^verbatim>\<open>float64\<close>. A finite float64 is a dyadic
  number \<open>mantissa * 2 ^ exponent\<close>; every arithmetic operation returns the exact result
  rounded to 53 significant bits, ties to even (IEEE 754 binary64, within the range of
  normal numbers; infinities, NaN and subnormal results are outside the model).
\<close>

datatype float64 = Float64 (mantissa: int) (exponent: int)

function bit_length :: "int \<Rightarrow> nat" where
  "bit_length n = (if n \<le> 0 then 0 else Suc (bit_length (n div 2)))"
  by pat_completeness auto
termination
  by (relation "measure nat") auto

declare bit_length.simps [simp del]

definition round_half_even :: "int \<Rightarrow> int \<Rightarrow> int" where
  "round_half_even n d =
     (let q = n div d; r = n mod d in
      if 2 * r < d then q
      else if d < 2 * r then q + 1
      else if even q then q else q + 1)"

definition scale_num :: "int \<Rightarrow> int \<Rightarrow> int" where
  "scale_num n e = (if e < 0 then n * 2 ^ nat (- e) else n)"

definition scale_den :: "int \<Rightarrow> int \<Rightarrow> int" where
  "scale_den d e = (if e < 0 then d else d * 2 ^ nat e)"

text \<open>
  \<open>round_to_float64 n d\<close> is the float64 nearest to the rational \<open>n / d\<close> (\<open>d > 0\<close>):
  the exponent \<open>e\<close> is chosen with \<open>2 ^ 52 \<le> |n| / (d * 2 ^ e) < 2 ^ 53\<close> and the
  quotient is rounded to an integer, ties to even. This is also how Go converts the
  constant \<^verbatim>\<open>0.0001\<close> to float64.
\<close>

definition round_to_float64 :: "int \<Rightarrow> int \<Rightarrow> float64" where
  "round_to_float64 n d =
     (if n = 0 then Float64 0 0
      else
        let a = \<bar>n\<bar>;
            k = int (bit_length a) - int (bit_length d);
            l = (if scale_den d k \<le> scale_num a k then k else k - 1);
            e = l - 52;
            m = round_half_even (scale_num a e) (scale_den d e)
        in Float64 (sgn n * m) e)"

definition round_dyadic :: "int \<Rightarrow> int \<Rightarrow> float64" where
  "round_dyadic m e = round_to_float64 (scale_den m e) (scale_num 1 e)"

definition align :: "float64 \<Rightarrow> int \<Rightarrow> int" where
  "align x e = mantissa x * 2 ^ nat (exponent x - e)"

definition float64_mul :: "float64 \<Rightarrow> float64 \<Rightarrow> float64" where
  "float64_mul x y = round_dyadic (mantissa x * mantissa y) (exponent x + exponent y)"

definition float64_add :: "float64 \<Rightarrow> float64 \<Rightarrow> float64" where
  "float64_add x y =
     (let e = min (exponent x) (exponent y) in round_dyadic (align x e + align y e) e)"

definition float64_sub :: "float64 \<Rightarrow> float64 \<Rightarrow> float64" where
  "float64_sub x y =
     (let e = min (exponent x) (exponent y) in round_dyadic (align x e - align y e) e)"

definition float64_less :: "float64 \<Rightarrow> float64 \<Rightarrow> bool" where
  "float64_less x y = (let e = min (exponent x) (exponent y) in align x e < align y e)"

definition float64_ge :: "float64 \<Rightarrow> float64 \<Rightarrow> bool" where
  "float64_ge x y = (let e = min (exponent x) (exponent y) in align y e \<le> align x e)"

definition float64_zero :: float64 where
  "float64_zero = Float64 0 0"

definition float64_of_int :: "int \<Rightarrow> float64" where
  "float64_of_int n = round_to_float64 n 1"

text \<open>
  Dropping the fraction (truncation towards zero), as \<^verbatim>\<open>big.Float.Int\<close> does without
  any bound on the result.
\<close>

definition truncate_to_int :: "float64 \<Rightarrow> int" where
  "truncate_to_int x =
     (if 0 \<le> exponent x then mantissa x * 2 ^ nat (exponent x)
      else sgn (mantissa x) * (\<bar>mantissa x\<bar> div 2 ^ nat (- exponent x)))"

text \<open>
  \<^verbatim>\<open>int64(x)\<close>: the truncated value when it is an int64. Outside that range Go leaves
  the result to the implementation; the compiled conversion of amd64 yields the least
  int64 there, and that is the value taken here.
\<close>

definition int64_of_float64 :: "float64 \<Rightarrow> int" where
  "int64_of_float64 x =
     (let t = truncate_to_int x
      in if - (2 ^ 63) \<le> t \<and> t < 2 ^ 63 then t else - (2 ^ 63))"

text \<open>A decimal amount \<open>n / d\<close> as the caller's float64 (nearest float64, as Go parses it).\<close>

definition decimal :: "int \<Rightarrow> int \<Rightarrow> float64" where
  "decimal n d = round_to_float64 n d"

text \<open>
  For stating what the operations compute: the rational number a float64 stands for,
  and what it means that \<open>r\<close> is the exact number \<open>x\<close> correctly rounded (within half a
  unit of the last of the 53 bits).
\<close>

definition float64_value :: "float64 \<Rightarrow> rat" where
  "float64_value x = of_int (mantissa x) * 2 powi exponent x"

definition rounds_to :: "rat \<Rightarrow> float64 \<Rightarrow> bool" where
  "rounds_to x r =
     (\<bar>x - float64_value r\<bar> \<le> 2 powi exponent r / 2
      \<and> (x = 0 \<and> mantissa r = 0
           \<or> 2 ^ 52 \<le> \<bar>mantissa r\<bar> \<and> \<bar>mantissa r\<bar> \<le> 2 ^ 53))"

section \<open>Bitcoin client\<close>

record ListUnspentResult =
  TxID :: string
  Vout :: nat
  Address :: string
  Amount :: float64

record OutPoint =
  Hash :: string
  Index :: nat

record TxIn =
  PreviousOutPoint :: OutPoint
  SignatureScript :: string

record TxOut =
  Value :: int
  PkScript :: string

record MsgTx =
  TxIn :: "TxIn list"
  TxOut :: "TxOut list"

record TxRawResult =
  Confirmations :: "64 word"

text \<open>
  What the client reaches outside this repository: the btcd library functions and the
  RPC calls of the node behind \<^verbatim>\<open>c.client\<close>. A call that returns a Go error is \<open>None\<close>.
  \<open>rpc_listunspent\<close> is the node's answer to \<^verbatim>\<open>listunspent\<close> for the given address
  strings.
\<close>

record bitcoin_env =
  btcutil_DecodeAddress :: "string \<Rightarrow> string option"
  btcutil_DecodeWIF :: "string \<Rightarrow> string option"
  txscript_PayToAddrScript :: "string \<Rightarrow> string option"
  txscript_SignatureScript :: "MsgTx \<Rightarrow> nat \<Rightarrow> string \<Rightarrow> string \<Rightarrow> string option"
  chainhash_NewHashFromStr :: "string \<Rightarrow> string option"
  rpc_listunspent :: "string list \<Rightarrow> ListUnspentResult list option"
  rpc_SendRawTransaction :: "MsgTx \<Rightarrow> string option"
  rpc_GetRawTransactionVerbose :: "string \<Rightarrow> TxRawResult option"

text \<open>The calls to the node and the signatures made, in the order the client makes them.\<close>

datatype bitcoin_event =
    ListUnspentCall
  | SignatureMade nat
  | SendRawTransactionCall MsgTx
  | GetRawTransactionCall string

datatype 'a outcome = Returns 'a | Fails | Panics

text \<open>
  \<^verbatim>\<open>rpcclient.Client.ListUnspentMinMaxAddresses\<close> of btcd first turns every address of
  its argument into a string with \<^verbatim>\<open>a.EncodeAddress()\<close>, and only then sends the command.
  An address is an interface value; on a nil one (\<open>None\<close>) the method call panics.
\<close>

definition ListUnspentMinMaxAddresses ::
  "bitcoin_env \<Rightarrow> string option list \<Rightarrow> ListUnspentResult list outcome" where
  "ListUnspentMinMaxAddresses c addrs =
     (if None \<in> set addrs then Panics
      else case rpc_listunspent c (concat (map (\<lambda>a. case a of None \<Rightarrow> [] | Some s \<Rightarrow> [s]) addrs)) of
             None \<Rightarrow> Fails
           | Some unspentOutputs \<Rightarrow> Returns unspentOutputs)"

definition BitcoinClient_ValidateAddress :: "bitcoin_env \<Rightarrow> string \<Rightarrow> bool" where
  "BitcoinClient_ValidateAddress c address = (btcutil_DecodeAddress c address \<noteq> None)"

text \<open>The fee is the constant \<^verbatim>\<open>0.0001\<close> (BTC) wherever the client needs it.\<close>

definition fixed_fee :: float64 where
  "fixed_fee = round_to_float64 1 10000"

definition satoshi_per_btc :: float64 where
  "satoshi_per_btc = float64_of_int 100000000"

definition btc_to_satoshi :: "float64 \<Rightarrow> int" where
  "btc_to_satoshi amount = int64_of_float64 (float64_mul amount satoshi_per_btc)"

definition NewTxIn :: "string \<Rightarrow> nat \<Rightarrow> TxIn" where
  "NewTxIn hash vout = \<lparr>PreviousOutPoint = \<lparr>Hash = hash, Index = vout\<rparr>, SignatureScript = []\<rparr>"

text \<open>
  The input loop of \<^verbatim>\<open>SendTransaction\<close>: it walks the list of unspent outputs in the
  order given, takes every output of the sender, and breaks once the total reaches
  amount + 0.0001. The error of \<^verbatim>\<open>chainhash.NewHashFromStr\<close> is dropped, and
  \<^verbatim>\<open>wire.NewOutPoint\<close> dereferences the hash: for a transaction id that does not parse,
  the hash is nil and the loop panics.
\<close>

fun add_inputs ::
  "bitcoin_env \<Rightarrow> string \<Rightarrow> float64 \<Rightarrow> ListUnspentResult list \<Rightarrow> float64 \<Rightarrow> TxIn list
     \<Rightarrow> error + float64 \<times> TxIn list" where
  "add_inputs c fromAddress amount [] totalInput ins = Inr (totalInput, ins)"
| "add_inputs c fromAddress amount (output # rest) totalInput ins =
     (if Address output = fromAddress then
        (let totalInput' = float64_add totalInput (Amount output)
         in case chainhash_NewHashFromStr c (TxID output) of
              None \<Rightarrow> Inl (Panic ''invalid memory address or nil pointer dereference'')
            | Some hash \<Rightarrow>
                (let ins' = ins @ [NewTxIn hash (Vout output)]
                 in if float64_ge totalInput' (float64_add amount fixed_fee)
                    then Inr (totalInput', ins')
                    else add_inputs c fromAddress amount rest totalInput' ins'))
      else add_inputs c fromAddress amount rest totalInput ins)"

definition script_or_nil :: "string option \<Rightarrow> string" where
  "script_or_nil r = (case r of None \<Rightarrow> [] | Some s \<Rightarrow> s)"

definition change_script :: "bitcoin_env \<Rightarrow> string \<Rightarrow> string" where
  "change_script c fromAddress =
     (case btcutil_DecodeAddress c fromAddress of
        None \<Rightarrow> script_or_nil (txscript_PayToAddrScript c [])
      | Some changeAddr \<Rightarrow> script_or_nil (txscript_PayToAddrScript c changeAddr))"

text \<open>
  The part of \<^verbatim>\<open>SendTransaction\<close> that builds the transaction from the list of unspent
  outputs (from \<^verbatim>\<open>wire.NewMsgTx\<close> to the change output): the output for the recipient,
  the input loop, the balance test, the change output.
\<close>

definition build_transaction ::
  "bitcoin_env \<Rightarrow> string \<Rightarrow> float64 \<Rightarrow> string \<Rightarrow> ListUnspentResult list \<Rightarrow> error + MsgTx" where
  "build_transaction c fromAddress amount destScript unspentOutputs =
     (let amountSatoshi = btc_to_satoshi amount;
          outs = [\<lparr>Value = amountSatoshi, PkScript = destScript\<rparr>]
      in case add_inputs c fromAddress amount unspentOutputs float64_zero [] of
           Inl e \<Rightarrow> Inl e
         | Inr (totalInput, ins) \<Rightarrow>
             if float64_less totalInput (float64_add amount fixed_fee)
             then Inl ErrInsufficientBalance
             else
               (let change = float64_sub (float64_sub totalInput amount) fixed_fee;
                    outs' = (if float64_less float64_zero change
                             then outs @ [\<lparr>Value = btc_to_satoshi change,
                                           PkScript = change_script c fromAddress\<rparr>]
                             else outs)
                in Inr \<lparr>TxIn = ins, TxOut = outs'\<rparr>))"

text \<open>
  The signing loop: input \<open>i\<close> is signed over the transaction as it stands, with the
  signature scripts of the inputs before it already in place.
\<close>

fun sign_inputs ::
  "bitcoin_env \<Rightarrow> string \<Rightarrow> string \<Rightarrow> nat \<Rightarrow> nat \<Rightarrow> MsgTx \<Rightarrow> bitcoin_event list
     \<Rightarrow> MsgTx option \<times> bitcoin_event list" where
  "sign_inputs c destScript key 0 i tx evs = (Some tx, evs)"
| "sign_inputs c destScript key (Suc n) i tx evs =
     (case txscript_SignatureScript c tx i destScript key of
        None \<Rightarrow> (None, evs)
      | Some sigScript \<Rightarrow>
          sign_inputs c destScript key n (Suc i)
            (tx\<lparr>TxIn := (TxIn tx)[i := (TxIn tx ! i)\<lparr>SignatureScript := sigScript\<rparr>]\<rparr>)
            (evs @ [SignatureMade i]))"

text \<open>The rest of \<^verbatim>\<open>SendTransaction\<close>: signing every input and broadcasting.\<close>

definition sign_and_send ::
  "bitcoin_env \<Rightarrow> string \<Rightarrow> string \<Rightarrow> MsgTx \<Rightarrow> bitcoin_event list
     \<Rightarrow> (error + string) \<times> bitcoin_event list" where
  "sign_and_send c destScript wif tx evs0 =
     (case sign_inputs c destScript wif (length (TxIn tx)) 0 tx evs0 of
        (None, evs) \<Rightarrow> (Inl (ErrMsg ''failed to sign transaction''), evs)
      | (Some stx, evs) \<Rightarrow>
          (case rpc_SendRawTransaction c stx of
             None \<Rightarrow> (Inl (ErrMsg ''failed to broadcast transaction''),
                       evs @ [SendRawTransactionCall stx])
           | Some txHash \<Rightarrow> (Inr txHash, evs @ [SendRawTransactionCall stx])))"

text \<open>
  \<^verbatim>\<open>SendTransaction\<close>. The list of unspent outputs is asked for with the address list
  \<^verbatim>\<open>[]btcutil.Address{btcutil.Address(nil)}\<close>, a placeholder that holds one nil address.
\<close>

definition BitcoinClient_SendTransaction ::
  "bitcoin_env \<Rightarrow> string \<Rightarrow> string \<Rightarrow> float64 \<Rightarrow> string \<Rightarrow> (error + string) \<times> bitcoin_event list" where
  "BitcoinClient_SendTransaction c fromAddress toAddress amount privateKeyWIF =
     (if \<not> BitcoinClient_ValidateAddress c fromAddress \<or> \<not> BitcoinClient_ValidateAddress c toAddress
      then (Inl ErrInvalidAddress, [])
      else case btcutil_DecodeWIF c privateKeyWIF of
        None \<Rightarrow> (Inl (ErrMsg ''invalid private key''), [])
      | Some wif \<Rightarrow>
      (case btcutil_DecodeAddress c toAddress of
        None \<Rightarrow> (Inl (ErrMsg ''invalid destination address''), [])
      | Some destAddr \<Rightarrow>
      (case txscript_PayToAddrScript c destAddr of
        None \<Rightarrow> (Inl (ErrMsg ''failed to create output script''), [])
      | Some destScript \<Rightarrow>
      (case ListUnspentMinMaxAddresses c [None] of
        Panics \<Rightarrow> (Inl (Panic ''invalid memory address or nil pointer dereference''), [])
      | Fails \<Rightarrow> (Inl (ErrMsg ''failed to get unspent outputs''), [ListUnspentCall])
      | Returns unspentOutputs \<Rightarrow>
      (case build_transaction c fromAddress amount destScript unspentOutputs of
        Inl e \<Rightarrow> (Inl e, [ListUnspentCall])
      | Inr tx \<Rightarrow> sign_and_send c destScript wif tx [ListUnspentCall])))))"

definition BitcoinClient_GetConfirmations ::
  "bitcoin_env \<Rightarrow> string \<Rightarrow> (error + 64 word) \<times> bitcoin_event list" where
  "BitcoinClient_GetConfirmations c txID =
     (case chainhash_NewHashFromStr c txID of
        None \<Rightarrow> (Inl (ErrMsg ''invalid transaction ID''), [])
      | Some hash \<Rightarrow>
      (case rpc_GetRawTransactionVerbose c hash of
        None \<Rightarrow> (Inl (ErrMsg ''failed to get transaction''), [GetRawTransactionCall hash])
      | Some tx \<Rightarrow> (Inr (Confirmations tx), [GetRawTransactionCall hash])))"

section \<open>Ethereum client\<close>

subsection \<open>Address strings\<close>

text \<open>
  \<^verbatim>\<open>ValidateAddress\<close> is \<^verbatim>\<open>common.IsHexAddress\<close>, the sending address is compared with
  \<^verbatim>\<open>Address.Hex()\<close>, and the recipient is read with \<^verbatim>\<open>common.HexToAddress\<close>. These are
  functions of go-ethereum (\<^verbatim>\<open>common/types.go\<close>, \<^verbatim>\<open>common/bytes.go\<close>), written
  out here as that library defines them; only Keccak-256, which decides the letter case
  of \<^verbatim>\<open>Hex()\<close>, stays a parameter. An address is its 20 bytes.
\<close>

definition HasPrefix :: "string \<Rightarrow> string \<Rightarrow> bool" where
  "HasPrefix s p = (take (length p) s = p)"

definition has0xPrefix :: "string \<Rightarrow> bool" where
  "has0xPrefix str =
     (case str of
        a # b # _ \<Rightarrow> a = CHR ''0'' \<and> (b = CHR ''x'' \<or> b = CHR ''X'')
      | _ \<Rightarrow> False)"

definition isHexCharacter :: "char \<Rightarrow> bool" where
  "isHexCharacter c = (c \<in> set ''0123456789'' \<or> c \<in> set ''abcdef'' \<or> c \<in> set ''ABCDEF'')"

definition isHex :: "string \<Rightarrow> bool" where
  "isHex str = (even (length str) \<and> list_all isHexCharacter str)"

definition IsHexAddress :: "string \<Rightarrow> bool" where
  "IsHexAddress s =
     (let s' = (if has0xPrefix s then drop 2 s else s)
      in length s' = 40 \<and> isHex s')"

definition hexval :: "char \<Rightarrow> nat option" where
  "hexval c =
     map_of
       [(CHR ''0'', 0), (CHR ''1'', 1), (CHR ''2'', 2), (CHR ''3'', 3), (CHR ''4'', 4),
        (CHR ''5'', 5), (CHR ''6'', 6), (CHR ''7'', 7), (CHR ''8'', 8), (CHR ''9'', 9),
        (CHR ''a'', 10), (CHR ''b'', 11), (CHR ''c'', 12), (CHR ''d'', 13), (CHR ''e'', 14),
        (CHR ''f'', 15),
        (CHR ''A'', 10), (CHR ''B'', 11), (CHR ''C'', 12), (CHR ''D'', 13), (CHR ''E'', 14),
        (CHR ''F'', 15)] c"

text \<open>
  \<^verbatim>\<open>Hex2Bytes\<close> ignores the error of \<^verbatim>\<open>hex.DecodeString\<close>, which returns the bytes
  decoded before the first malformed pair.
\<close>

fun Hex2Bytes :: "string \<Rightarrow> nat list" where
  "Hex2Bytes (a # b # rest) =
     (case hexval a of
        None \<Rightarrow> []
      | Some x \<Rightarrow> (case hexval b of None \<Rightarrow> [] | Some y \<Rightarrow> (16 * x + y) # Hex2Bytes rest))"
| "Hex2Bytes _ = []"

definition FromHex :: "string \<Rightarrow> nat list" where
  "FromHex s =
     (let s1 = (if has0xPrefix s then drop 2 s else s);
          s2 = (if odd (length s1) then CHR ''0'' # s1 else s1)
      in Hex2Bytes s2)"

definition BytesToAddress :: "nat list \<Rightarrow> nat list" where
  "BytesToAddress b =
     (let b' = (if 20 < length b then drop (length b - 20) b else b)
      in replicate (20 - length b') 0 @ b')"

definition HexToAddress :: "string \<Rightarrow> nat list" where
  "HexToAddress s = BytesToAddress (FromHex s)"

definition hexdigit :: "nat \<Rightarrow> char" where
  "hexdigit n = ''0123456789abcdef'' ! (n mod 16)"

definition hex_Encode :: "nat list \<Rightarrow> string" where
  "hex_Encode bs = concat (map (\<lambda>b. [hexdigit (b div 16), hexdigit (b mod 16)]) bs)"

definition upper_case :: "char \<Rightarrow> char" where
  "upper_case c =
     (case map_of [(CHR ''a'', CHR ''A''), (CHR ''b'', CHR ''B''), (CHR ''c'', CHR ''C''),
                   (CHR ''d'', CHR ''D''), (CHR ''e'', CHR ''E''), (CHR ''f'', CHR ''F'')] c of
        None \<Rightarrow> c
      | Some u \<Rightarrow> u)"

text \<open>
  The loop of \<^verbatim>\<open>checksumHex\<close>: digit \<open>i\<close> becomes upper case when it is a letter and
  nibble \<open>i\<close> of the Keccak-256 hash of the lower-case digits is above 7.
\<close>

fun checksum_case :: "(nat \<Rightarrow> nat) \<Rightarrow> nat \<Rightarrow> string \<Rightarrow> string" where
  "checksum_case hash i [] = []"
| "checksum_case hash i (ch # rest) =
     (if ch \<in> set ''abcdef'' \<and> 7 < hash i then upper_case ch else ch)
       # checksum_case hash (Suc i) rest"

definition Address_Hex :: "(string \<Rightarrow> nat \<Rightarrow> nat) \<Rightarrow> nat list \<Rightarrow> string" where
  "Address_Hex keccak a =
     (let buf = hex_Encode a in ''0x'' @ checksum_case (keccak buf) 0 buf)"

subsection \<open>The client\<close>

record EthTransaction =
  Nonce :: "64 word"
  To :: "nat list"
  Wei :: int
  GasLimit :: "64 word"
  GasPrice :: int

record SignedTransaction =
  Unsigned :: EthTransaction
  Signature :: string

text \<open>
  A receipt as decoded from the node's JSON. \<^verbatim>\<open>BlockNumber\<close> is a \<^verbatim>\<open>*big.Int\<close>; it is
  nil (\<open>None\<close>) when the node's answer has no \<^verbatim>\<open>blockNumber\<close>.
\<close>

record Receipt =
  BlockNumber :: "nat option"
  Status :: "64 word"

datatype 'a lookup = Found 'a | NotFound | OtherError

text \<open>
  What the client reaches outside this repository: go-ethereum's key and signing
  functions, and the JSON-RPC calls of the node behind \<^verbatim>\<open>c.client\<close>. A call that returns
  a Go error is \<open>None\<close> (\<open>False\<close> for \<^verbatim>\<open>SendTransaction\<close>); the receipt lookup tells
  \<^verbatim>\<open>ethereum.NotFound\<close> from other errors, as the client does.
\<close>

record ethereum_env =
  hexutil_Decode :: "string \<Rightarrow> nat list option"
  crypto_ToECDSA :: "nat list \<Rightarrow> nat list option"
  crypto_PubkeyToAddress :: "nat list \<Rightarrow> nat list"
  crypto_Keccak256 :: "string \<Rightarrow> nat \<Rightarrow> nat"
  types_SignTx :: "EthTransaction \<Rightarrow> nat list \<Rightarrow> string option"
  tx_Hash_Hex :: "SignedTransaction \<Rightarrow> string"
  common_HexToHash :: "string \<Rightarrow> string"
  eth_BalanceAt :: "nat list \<Rightarrow> int option"
  eth_PendingNonceAt :: "nat list \<Rightarrow> 64 word option"
  eth_SuggestGasPrice :: "int option"
  eth_SendTransaction :: "SignedTransaction \<Rightarrow> bool"
  eth_TransactionReceipt :: "string \<Rightarrow> Receipt lookup"
  eth_BlockNumber :: "64 word option"

datatype ethereum_event =
    PendingNonceAtCall "nat list"
  | SuggestGasPriceCall
  | SignTxMade EthTransaction
  | SendTransactionCall SignedTransaction
  | TransactionReceiptCall string
  | BlockNumberCall

definition EthereumClient_ValidateAddress :: "string \<Rightarrow> bool" where
  "EthereumClient_ValidateAddress address = IsHexAddress address"

definition Ether :: float64 where
  "Ether = float64_of_int (10 ^ 18)"

definition ether_to_wei :: "float64 \<Rightarrow> int" where
  "ether_to_wei amount = truncate_to_int (float64_mul amount Ether)"

definition EthereumClient_SendTransaction ::
  "ethereum_env \<Rightarrow> string \<Rightarrow> string \<Rightarrow> float64 \<Rightarrow> string
     \<Rightarrow> (error + string) \<times> ethereum_event list" where
  "EthereumClient_SendTransaction c fromAddress toAddress amount privateKeyHex =
     (if \<not> EthereumClient_ValidateAddress fromAddress \<or> \<not> EthereumClient_ValidateAddress toAddress
      then (Inl ErrInvalidAddress, [])
      else
        let privateKeyHex' =
              (if HasPrefix privateKeyHex ''0x'' then privateKeyHex else ''0x'' @ privateKeyHex)
        in case hexutil_Decode c privateKeyHex' of
          None \<Rightarrow> (Inl (ErrMsg ''invalid private key''), [])
        | Some privateKeyBytes \<Rightarrow>
        (case crypto_ToECDSA c privateKeyBytes of
          None \<Rightarrow> (Inl (ErrMsg ''invalid private key''), [])
        | Some privateKey \<Rightarrow>
        (let address = crypto_PubkeyToAddress c privateKey
         in if Address_Hex (crypto_Keccak256 c) address \<noteq> fromAddress
            then (Inl (ErrMsg ''private key does not match from address''), [])
            else
        (case eth_PendingNonceAt c address of
          None \<Rightarrow> (Inl (ErrMsg ''failed to get nonce''), [PendingNonceAtCall address])
        | Some nonce \<Rightarrow>
        (case eth_SuggestGasPrice c of
          None \<Rightarrow> (Inl (ErrMsg ''failed to get gas price''),
                    [PendingNonceAtCall address, SuggestGasPriceCall])
        | Some gasPrice \<Rightarrow>
        (let valueInt = ether_to_wei amount;
             toAddress' = HexToAddress toAddress;
             tx = \<lparr>Nonce = nonce,
                   To = HexToAddress (Address_Hex (crypto_Keccak256 c) toAddress'),
                   Wei = valueInt, GasLimit = 21000, GasPrice = gasPrice\<rparr>
         in case types_SignTx c tx privateKey of
              None \<Rightarrow> (Inl (ErrMsg ''failed to sign transaction''),
                        [PendingNonceAtCall address, SuggestGasPriceCall, SignTxMade tx])
            | Some sig \<Rightarrow>
                (let signedTx = \<lparr>Unsigned = tx, Signature = sig\<rparr>;
                     evs = [PendingNonceAtCall address, SuggestGasPriceCall, SignTxMade tx,
                            SendTransactionCall signedTx]
                 in if eth_SendTransaction c signedTx
                    then (Inr (tx_Hash_Hex c signedTx), evs)
                    else (Inl (ErrMsg ''failed to send transaction''), evs))))))))"

definition EthereumClient_GetConfirmations ::
  "ethereum_env \<Rightarrow> string \<Rightarrow> (error + 64 word) \<times> ethereum_event list" where
  "EthereumClient_GetConfirmations c txID =
     (let txID' = (if HasPrefix txID ''0x'' then txID else ''0x'' @ txID);
          hash = common_HexToHash c txID'
      in case eth_TransactionReceipt c hash of
           NotFound \<Rightarrow> (Inr 0, [TransactionReceiptCall hash])
         | OtherError \<Rightarrow>
             (Inl (ErrMsg ''failed to get transaction receipt''), [TransactionReceiptCall hash])
         | Found receipt \<Rightarrow>
             (case eth_BlockNumber c of
                None \<Rightarrow> (Inl (ErrMsg ''failed to get current block number''),
                          [TransactionReceiptCall hash, BlockNumberCall])
              | Some currentBlock \<Rightarrow>
                  (case BlockNumber receipt of
                     None \<Rightarrow>
                       (Inl (Panic ''invalid memory address or nil pointer dereference''),
                        [TransactionReceiptCall hash, BlockNumberCall])
                   | Some blockNumber \<Rightarrow>
                       (Inr (currentBlock - word_of_nat blockNumber),
                        [TransactionReceiptCall hash, BlockNumberCall]))))"

section \<open>Notions used to state the properties\<close>








text \<open>
  The textual format that \<^verbatim>\<open>IsHexAddress\<close> accepts, stated on its own: 40 hexadecimal
  digits, with or without a leading \<^verbatim>\<open>0x\<close> or \<^verbatim>\<open>0X\<close>.
\<close>

definition hex_address_format :: "string \<Rightarrow> bool" where
  "hex_address_format a =
     (\<exists>body. (a = body \<or> a = ''0x'' @ body \<or> a = ''0X'' @ body)
        \<and> length body = 40
        \<and> list_all (\<lambda>ch. ch \<in> set ''0123456789abcdefABCDEF'') body)"

text \<open>The 20 bytes of a well-formed address.\<close>

definition address_bytes :: "nat list \<Rightarrow> bool" where
  "address_bytes a = (length a = 20 \<and> list_all (\<lambda>b. b < 256) a)"

section \<open>Sample environments\<close>

text \<open>
  Concrete nodes and library results on which the clients are run below. The Bitcoin
  node lists the given unspent outputs and accepts every transaction; \<open>addr1\<close> and
  \<open>addr2\<close> are its two well-formed addresses, and every transaction id parses.
\<close>

definition utxo :: "string \<Rightarrow> nat \<Rightarrow> string \<Rightarrow> float64 \<Rightarrow> ListUnspentResult" where
  "utxo t v a x = \<lparr>TxID = t, Vout = v, Address = a, Amount = x\<rparr>"

definition bitcoin_node :: "ListUnspentResult list \<Rightarrow> bitcoin_env" where
  "bitcoin_node utxos =
     \<lparr>btcutil_DecodeAddress = (\<lambda>a. if a = ''addr1'' \<or> a = ''addr2'' then Some a else None),
      btcutil_DecodeWIF = (\<lambda>w. if w = ''wif1'' then Some ''key1'' else None),
      txscript_PayToAddrScript = (\<lambda>a. Some (''pay:'' @ a)),
      txscript_SignatureScript = (\<lambda>tx i script key. Some (''sig:'' @ key)),
      chainhash_NewHashFromStr = (\<lambda>s. Some s),
      rpc_listunspent = (\<lambda>addrs. Some utxos),
      rpc_SendRawTransaction = (\<lambda>tx. Some ''txhash''),
      rpc_GetRawTransactionVerbose = (\<lambda>h. Some \<lparr>Confirmations = 3\<rparr>)\<rparr>"

text \<open>
  The Ethereum node: the key \<open>[1]\<close> owns the address
  \<^verbatim>\<open>5aaeb6053f3e94c9b9a09f33669435e7ef1beaed\<close>; the Keccak-256 nibbles are those that give
  its checksummed form \<^verbatim>\<open>0x5aAeb6053F3E94C9b9A09f33669435E7Ef1BeAed\<close>. The account holds
  \<open>balance\<close> wei, the gas price is 1 gwei, and the node accepts a transaction only if
  the balance covers value plus gas.
\<close>

definition sample_address :: "nat list" where
  "sample_address =
     [0x5a, 0xae, 0xb6, 0x05, 0x3f, 0x3e, 0x94, 0xc9, 0xb9, 0xa0,
      0x9f, 0x33, 0x66, 0x94, 0x35, 0xe7, 0xef, 0x1b, 0xea, 0xed]"

definition sample_keccak :: "string \<Rightarrow> nat \<Rightarrow> nat" where
  "sample_keccak s i =
     (if i \<in> set [2, 9, 11, 14, 18, 30, 32, 35, 37] then 8 else 0)"

definition ethereum_node :: "int \<Rightarrow> 64 word \<Rightarrow> Receipt lookup \<Rightarrow> ethereum_env" where
  "ethereum_node balance height receipt =
     \<lparr>hexutil_Decode = (\<lambda>s. if s = ''0x01'' then Some [1] else None),
      crypto_ToECDSA = (\<lambda>b. Some b),
      crypto_PubkeyToAddress = (\<lambda>k. sample_address),
      crypto_Keccak256 = sample_keccak,
      types_SignTx = (\<lambda>tx k. Some ''sig''),
      tx_Hash_Hex = (\<lambda>stx. ''0xhash''),
      common_HexToHash = (\<lambda>s. s),
      eth_BalanceAt = (\<lambda>a. Some balance),
      eth_PendingNonceAt = (\<lambda>a. Some 0),
      eth_SuggestGasPrice = Some 1000000000,
      eth_SendTransaction =
        (\<lambda>stx. Wei (Unsigned stx) + uint (GasLimit (Unsigned stx)) * GasPrice (Unsigned stx)
                 \<le> balance),
      eth_TransactionReceipt = (\<lambda>h. receipt),
      eth_BlockNumber = Some height\<rparr>"

text \<open>
  The sender \<open>addr1\<close> holds three outputs of 5, 3 and 1 units, where a unit is
  \<open>1 / per_btc\<close> BTC; the node lists them largest first or smallest first.
\<close>

definition largest_first :: "int \<Rightarrow> ListUnspentResult list" where
  "largest_first per_btc =
     [utxo ''t1'' 0 ''addr1'' (decimal 5 per_btc),
      utxo ''t2'' 0 ''addr1'' (decimal 3 per_btc),
      utxo ''t3'' 0 ''addr1'' (decimal 1 per_btc)]"


section \<open>Properties\<close>

subsection \<open>The float64 operations are the exact operations, correctly rounded\<close>

lemma bit_length_bounds:
  "0 < a \<Longrightarrow> a < 2 ^ bit_length a \<and> 2 ^ bit_length a \<le> 2 * a"
proof (induction a rule: bit_length.induct)
  case (1 n)
  show ?case
  proof (cases "n div 2 = 0")
    case True
    with "1.prems" have "n = 1" by presburger
    then show ?thesis
      by (simp add: bit_length.simps [of 1] bit_length.simps [of 0])
  next
    case False
    with "1.prems" have pos: "0 < n div 2" by presburger
    with "1.IH" "1.prems"
    have IH: "n div 2 < 2 ^ bit_length (n div 2)" "2 ^ bit_length (n div 2) \<le> 2 * (n div 2)"
      by simp_all
    have bl: "bit_length n = Suc (bit_length (n div 2))"
      using "1.prems" by (simp add: bit_length.simps [of n])
    from IH show ?thesis
      unfolding bl by (simp; presburger)
  qed
qed

lemma scale_ratio:
  "0 < d \<Longrightarrow> (of_int (scale_num a e) :: rat) / of_int (scale_den d e)
     = (of_int a / of_int d) / 2 powi e"
  by (cases "e < 0")
     (simp_all add: scale_num_def scale_den_def power_int_def field_simps)

lemma scale_den_pos: "0 < d \<Longrightarrow> 0 < scale_den d e"
  by (simp add: scale_den_def)

lemma round_half_even_int:
  assumes "0 < d"
  shows "2 * \<bar>n - round_half_even n d * d\<bar> \<le> d"
proof -
  define q r where "q = n div d" and "r = n mod d"
  have r: "0 \<le> r" "r < d"
    using assms by (simp_all add: r_def)
  have a: "n - q * d = r"
    by (simp add: q_def r_def minus_div_mult_eq_mod)
  then have b: "n - (q + 1) * d = r - d"
    by (simp add: algebra_simps)
  consider "2 * r < d" | "d < 2 * r" | "2 * r = d" by linarith
  then show ?thesis
  proof cases
    case 1
    then have "round_half_even n d = q"
      by (simp add: round_half_even_def Let_def q_def r_def)
    with a r 1 show ?thesis by simp
  next
    case 2
    then have "round_half_even n d = q + 1"
      by (simp add: round_half_even_def Let_def q_def r_def)
    with b r 2 show ?thesis by simp
  next
    case 3
    have "round_half_even n d = q \<or> round_half_even n d = q + 1"
      by (simp add: round_half_even_def Let_def q_def r_def)
    then show ?thesis
    proof
      assume "round_half_even n d = q"
      with a r 3 show ?thesis by simp
    next
      assume "round_half_even n d = q + 1"
      with b r 3 show ?thesis by simp
    qed
  qed
qed

lemma round_half_even_near:
  assumes "0 < d"
  shows "\<bar>(of_int n :: rat) / of_int d - of_int (round_half_even n d)\<bar> \<le> 1 / 2"
proof -
  let ?m = "round_half_even n d"
  have d: "(0 :: rat) < of_int d" using assms by simp
  have "(of_int n :: rat) / of_int d - of_int ?m = of_int (n - ?m * d) / of_int d"
    using assms by (simp add: field_simps)
  then have "\<bar>(of_int n :: rat) / of_int d - of_int ?m\<bar> = of_int \<bar>n - ?m * d\<bar> / of_int d"
    using d by simp
  also have "\<dots> \<le> 1 / 2"
  proof -
    have "(of_int (2 * \<bar>n - ?m * d\<bar>) :: rat) \<le> of_int d"
      using round_half_even_int [OF assms, of n] by (simp only: of_int_le_iff)
    then have "2 * (of_int \<bar>n - ?m * d\<bar> :: rat) \<le> of_int d" by simp
    with d show ?thesis by (simp add: field_simps)
  qed
  finally show ?thesis .
qed

lemma round_half_even_lower:
  assumes "0 < d" and "lo * d \<le> n"
  shows "lo \<le> round_half_even n d"
proof -
  from assms have "(lo * d) div d \<le> n div d"
    by (intro zdiv_mono1)
  with assms(1) have "lo \<le> n div d" by simp
  moreover have "n div d \<le> round_half_even n d"
    by (simp add: round_half_even_def Let_def)
  ultimately show ?thesis by simp
qed

lemma round_half_even_upper:
  assumes "0 < d" and "n \<le> hi * d"
  shows "round_half_even n d \<le> hi"
proof (cases "round_half_even n d = n div d")
  case True
  from assms have "n div d \<le> hi"
    by (metis nonzero_mult_div_cancel_right order_less_irrefl zdiv_mono1)
  with True show ?thesis by simp
next
  case False
  then have up: "round_half_even n d = n div d + 1" and "0 < n mod d"
    using assms(1) by (auto simp: round_half_even_def Let_def split: if_splits)
  have "n div d < hi"
  proof (rule ccontr)
    assume "\<not> n div d < hi"
    then have "hi * d \<le> (n div d) * d" using assms(1) by simp
    also have "\<dots> < n" using \<open>0 < n mod d\<close>
      by (metis add.commute add_0 add_less_cancel_right div_mult_mod_eq)
    finally show False using assms(2) by simp
  qed
  with up show ?thesis by simp
qed


lemma scale_test:
  assumes "0 < d"
  shows "scale_den d e \<le> scale_num a e \<longleftrightarrow> (2 :: rat) powi e \<le> of_int a / of_int d"
proof -
  have D: "(0 :: rat) < of_int (scale_den d e)"
    using scale_den_pos [OF assms] by simp
  have "scale_den d e \<le> scale_num a e
      \<longleftrightarrow> (of_int (scale_den d e) :: rat) \<le> of_int (scale_num a e)"
    by simp
  also have "\<dots> \<longleftrightarrow> (1 :: rat) \<le> of_int (scale_num a e) / of_int (scale_den d e)"
    using D by (simp add: field_simps)
  also have "\<dots> \<longleftrightarrow> (1 :: rat) \<le> (of_int a / of_int d) / 2 powi e"
    by (simp only: scale_ratio [OF assms])
  also have "\<dots> \<longleftrightarrow> (2 :: rat) powi e \<le> of_int a / of_int d"
  proof -
    have "(0 :: rat) < 2 powi e" by simp
    then show ?thesis by (simp only: pos_le_divide_eq mult_1)
  qed
  finally show ?thesis .
qed

lemma bit_length_bracket:
  assumes "0 < a" "0 < d"
  defines "k \<equiv> int (bit_length a) - int (bit_length d)"
  shows "(2 :: rat) powi (k - 1) < of_int a / of_int d"
    and "(of_int a :: rat) / of_int d < 2 powi (k + 1)"
proof -
  let ?A = "(2 :: rat) ^ bit_length a" and ?D = "(2 :: rat) ^ bit_length d"
  from bit_length_bounds [OF assms(1)]
  have "(of_int a :: rat) < of_int (2 ^ bit_length a)"
    "(of_int (2 ^ bit_length a) :: rat) \<le> of_int (2 * a)"
    by (simp_all only: of_int_less_iff of_int_le_iff)
  then have a: "of_int a < ?A" "?A \<le> 2 * of_int a" by simp_all
  from bit_length_bounds [OF assms(2)]
  have "(of_int d :: rat) < of_int (2 ^ bit_length d)"
    "(of_int (2 ^ bit_length d) :: rat) \<le> of_int (2 * d)"
    by (simp_all only: of_int_less_iff of_int_le_iff)
  then have d: "of_int d < ?D" "?D \<le> 2 * of_int d" by simp_all
  have pk: "(2 :: rat) powi k = ?A / ?D"
    by (simp add: k_def power_int_diff)
  have dpos: "(0 :: rat) < of_int d" using assms(2) by simp
  have apos: "(0 :: rat) < of_int a" using assms(1) by simp
  have "(2 :: rat) powi (k - 1) = ?A / (2 * ?D)"
    by (simp add: power_int_diff pk)
  also have "\<dots> \<le> of_int a / ?D"
    using a(2) by (simp add: field_simps)
  also have "\<dots> < of_int a / of_int d"
    using d(1) dpos apos by (simp add: frac_less2)
  finally show "(2 :: rat) powi (k - 1) < of_int a / of_int d" .
  have "(of_int a :: rat) / of_int d < ?A / of_int d"
    using a(1) dpos by (simp add: divide_strict_right_mono)
  also have "\<dots> \<le> ?A / (?D / 2)"
    using d(2) dpos by (intro divide_left_mono) (simp_all add: field_simps)
  also have "\<dots> = 2 powi (k + 1)"
    by (simp add: power_int_add pk)
  finally show "(of_int a :: rat) / of_int d < 2 powi (k + 1)" .
qed


lemma round_to_float64_sound:
  assumes d: "0 < d" and n: "n \<noteq> 0"
  shows "\<bar>of_int n / of_int d - float64_value (round_to_float64 n d)\<bar>
           \<le> 2 powi exponent (round_to_float64 n d) / 2"
    and "2 ^ 52 \<le> \<bar>mantissa (round_to_float64 n d)\<bar>"
    and "\<bar>mantissa (round_to_float64 n d)\<bar> \<le> 2 ^ 53"
proof -
  define a where "a = \<bar>n\<bar>"
  define k where "k = int (bit_length a) - int (bit_length d)"
  define l where "l = (if scale_den d k \<le> scale_num a k then k else k - 1)"
  define e where "e = l - 52"
  define m where "m = round_half_even (scale_num a e) (scale_den d e)"
  have r: "round_to_float64 n d = Float64 (sgn n * m) e"
    using n by (simp add: round_to_float64_def Let_def a_def k_def l_def e_def m_def)
  let ?x = "of_int a / of_int d :: rat"
  let ?N = "scale_num a e" and ?D = "scale_den d e"
  let ?y = "of_int ?N / of_int ?D :: rat"
  have apos: "0 < a" using n by (simp add: a_def)
  have lo: "2 powi (k - 1) < ?x" and hi: "?x < 2 powi (k + 1)"
    using bit_length_bracket [OF apos d] by (simp_all add: k_def)
  have l1: "2 powi l \<le> ?x"
    using lo scale_test [OF d, of k a] by (auto simp: l_def)
  have l2: "?x < 2 powi (l + 1)"
    using hi scale_test [OF d, of k a] by (auto simp: l_def)
  have pe: "(0 :: rat) < 2 powi e" by simp
  have y: "?y = ?x / 2 powi e"
    by (rule scale_ratio [OF d])
  have "(2 :: rat) powi l / 2 powi e = 2 powi (l - e)"
    by (simp add: power_int_diff)
  also have "\<dots> = 2 ^ 52"
    by (simp add: e_def)
  finally have le: "(2 :: rat) powi l / 2 powi e = 2 ^ 52" .
  have "(2 :: rat) powi (l + 1) / 2 powi e = 2 powi (l + 1 - e)"
    using power_int_diff [of "2 :: rat" "l + 1" e] by simp
  also have "\<dots> = 2 ^ 53"
    by (simp add: e_def)
  finally have le1: "(2 :: rat) powi (l + 1) / 2 powi e = 2 ^ 53" .
  have "(2 :: rat) powi l / 2 powi e \<le> ?x / 2 powi e"
    using l1 pe by (intro divide_right_mono) simp_all
  then have y1: "2 ^ 52 \<le> ?y"
    by (simp only: y le)
  have "?x / 2 powi e < (2 :: rat) powi (l + 1) / 2 powi e"
    using l2 pe by (intro divide_strict_right_mono) simp_all
  then have y2: "?y < 2 ^ 53"
    by (simp only: y le1)
  have Dpos: "0 < ?D" by (rule scale_den_pos [OF d])
  then have Dr: "(0 :: rat) < of_int ?D" by simp
  from y1 Dr have "(2 ^ 52 :: rat) * of_int ?D \<le> of_int ?N"
    by (simp add: pos_le_divide_eq)
  then have "(of_int (2 ^ 52 * ?D) :: rat) \<le> of_int ?N" by simp
  then have N1: "2 ^ 52 * ?D \<le> ?N" by (simp only: of_int_le_iff)
  from y2 Dr have "(of_int ?N :: rat) \<le> 2 ^ 53 * of_int ?D"
    by (simp add: pos_divide_less_eq less_imp_le)
  then have "(of_int ?N :: rat) \<le> of_int (2 ^ 53 * ?D)" by simp
  then have N2: "?N \<le> 2 ^ 53 * ?D" by (simp only: of_int_le_iff)
  have m1: "2 ^ 52 \<le> m"
    unfolding m_def by (rule round_half_even_lower [OF Dpos N1])
  have m2: "m \<le> 2 ^ 53"
    unfolding m_def by (rule round_half_even_upper [OF Dpos N2])
  have sg: "\<bar>sgn n\<bar> = 1" using n by (simp add: abs_sgn_eq)
  from m1 have mpos: "0 < m" by (rule less_le_trans [rotated]) simp
  have "\<bar>sgn n * m\<bar> = m"
    using mpos sg by (simp add: abs_mult)
  with m1 m2 show "2 ^ 52 \<le> \<bar>mantissa (round_to_float64 n d)\<bar>"
    and "\<bar>mantissa (round_to_float64 n d)\<bar> \<le> 2 ^ 53"
    by (simp_all add: r)
  have near: "\<bar>?y - of_int m\<bar> \<le> 1 / 2"
    unfolding m_def by (rule round_half_even_near [OF Dpos])
  have "n = sgn n * a"
    by (simp add: a_def sgn_mult_abs)
  then have "(of_int n :: rat) = of_int (sgn n) * of_int a"
    by (metis of_int_mult)
  then have nx: "(of_int n :: rat) / of_int d = of_int (sgn n) * ?x"
    by simp
  have "of_int n / of_int d - float64_value (round_to_float64 n d)
        = of_int (sgn n) * ((?y - of_int m) * 2 powi e)"
    unfolding nx y r using pe by (simp add: float64_value_def field_simps)
  then have "\<bar>of_int n / of_int d - float64_value (round_to_float64 n d)\<bar>
        = \<bar>?y - of_int m\<bar> * 2 powi e"
    using sg pe by (simp add: abs_mult flip: of_int_abs)
  also have "\<dots> \<le> (1 / 2) * 2 powi e"
    using near pe by (intro mult_right_mono) simp_all
  finally show "\<bar>of_int n / of_int d - float64_value (round_to_float64 n d)\<bar>
           \<le> 2 powi exponent (round_to_float64 n d) / 2"
    by (simp add: r)
qed


lemma round_half_even_tie:
  "0 < d \<Longrightarrow> 2 * (n mod d) = d \<Longrightarrow> even (round_half_even n d)"
  by (simp add: round_half_even_def Let_def)

lemma round_to_float64_rounds:
  assumes "0 < d"
  shows "rounds_to (of_int n / of_int d) (round_to_float64 n d)"
proof (cases "n = 0")
  case True
  then show ?thesis
    by (simp add: rounds_to_def round_to_float64_def float64_value_def)
next
  case False
  from round_to_float64_sound [OF assms False] show ?thesis
    by (simp add: rounds_to_def)
qed

lemma round_dyadic_rounds: "rounds_to (of_int m * 2 powi e) (round_dyadic m e)"
proof -
  have pos: "0 < scale_num 1 e"
    by (simp add: scale_num_def)
  have "(of_int (scale_den m e) :: rat) / of_int (scale_num 1 e) = of_int m * 2 powi e"
    by (cases "e < 0") (simp_all add: scale_num_def scale_den_def power_int_def field_simps)
  with round_to_float64_rounds [OF pos, of "scale_den m e"] show ?thesis
    by (simp add: round_dyadic_def)
qed

lemma align_value:
  assumes "e \<le> exponent x"
  shows "(of_int (align x e) :: rat) * 2 powi e = float64_value x"
proof -
  have "(2 :: rat) ^ nat (exponent x - e) = 2 powi (exponent x - e)"
    using assms by (simp add: power_int_def)
  also have "\<dots> * 2 powi e = 2 powi exponent x"
    using power_int_add [of "2 :: rat" "exponent x - e" e] by simp
  finally show ?thesis
    by (simp add: align_def float64_value_def mult.assoc)
qed

lemma float64_mul_rounds:
  "rounds_to (float64_value x * float64_value y) (float64_mul x y)"
proof -
  have "float64_value x * float64_value y
      = of_int (mantissa x * mantissa y) * 2 powi (exponent x + exponent y)"
    by (simp add: float64_value_def power_int_add)
  then show ?thesis
    using round_dyadic_rounds [of "mantissa x * mantissa y" "exponent x + exponent y"]
    by (simp add: float64_mul_def)
qed

lemma float64_add_rounds:
  "rounds_to (float64_value x + float64_value y) (float64_add x y)"
proof -
  let ?e = "min (exponent x) (exponent y)"
  have "float64_value x + float64_value y = of_int (align x ?e + align y ?e) * 2 powi ?e"
    using align_value [of ?e x] align_value [of ?e y] by (simp add: distrib_right)
  then show ?thesis
    using round_dyadic_rounds [of "align x ?e + align y ?e" ?e]
    by (simp add: float64_add_def Let_def)
qed

lemma float64_sub_rounds:
  "rounds_to (float64_value x - float64_value y) (float64_sub x y)"
proof -
  let ?e = "min (exponent x) (exponent y)"
  have "float64_value x - float64_value y = of_int (align x ?e - align y ?e) * 2 powi ?e"
    using align_value [of ?e x] align_value [of ?e y] by (simp add: left_diff_distrib)
  then show ?thesis
    using round_dyadic_rounds [of "align x ?e - align y ?e" ?e]
    by (simp add: float64_sub_def Let_def)
qed

lemma float64_less_iff: "float64_less x y \<longleftrightarrow> float64_value x < float64_value y"
proof -
  let ?e = "min (exponent x) (exponent y)"
  have pe: "(0 :: rat) < 2 powi ?e" by simp
  have "float64_value x < float64_value y
      \<longleftrightarrow> (of_int (align x ?e) :: rat) * 2 powi ?e < of_int (align y ?e) * 2 powi ?e"
    using align_value [of ?e x] align_value [of ?e y] by simp
  also have "\<dots> \<longleftrightarrow> (of_int (align x ?e) :: rat) < of_int (align y ?e)"
    using pe by (simp only: mult_less_cancel_right_pos)
  finally show ?thesis
    by (simp add: float64_less_def Let_def)
qed

lemma float64_ge_iff: "float64_ge x y \<longleftrightarrow> float64_value y \<le> float64_value x"
  using float64_less_iff [of x y]
  by (auto simp: float64_ge_def float64_less_def Let_def)

lemma truncate_to_int_value:
  "truncate_to_int x =
     (if 0 \<le> float64_value x then \<lfloor>float64_value x\<rfloor> else \<lceil>float64_value x\<rceil>)"
proof (cases "0 \<le> exponent x")
  case True
  then have "float64_value x = of_int (mantissa x * 2 ^ nat (exponent x))"
    by (simp add: float64_value_def power_int_def)
  then have "\<lfloor>float64_value x\<rfloor> = mantissa x * 2 ^ nat (exponent x)"
    and "\<lceil>float64_value x\<rceil> = mantissa x * 2 ^ nat (exponent x)"
    by (simp_all only: floor_of_int ceiling_of_int)
  then show ?thesis
    using True by (simp add: truncate_to_int_def)
next
  case False
  let ?p = "(2 :: int) ^ nat (- exponent x)"
  have v: "float64_value x = of_int (mantissa x) / of_int ?p"
    using False by (simp add: float64_value_def power_int_def field_simps)
  have t: "truncate_to_int x = sgn (mantissa x) * (\<bar>mantissa x\<bar> div ?p)"
    using False by (simp add: truncate_to_int_def)
  show ?thesis
  proof (cases "0 \<le> mantissa x")
    case True
    then have "0 \<le> float64_value x" unfolding v by simp
    moreover have "\<lfloor>float64_value x\<rfloor> = mantissa x div ?p"
      unfolding v by (rule floor_divide_of_int_eq)
    moreover have "sgn (mantissa x) * (\<bar>mantissa x\<bar> div ?p) = mantissa x div ?p"
      using True by (cases "mantissa x = 0") simp_all
    ultimately show ?thesis by (simp add: t)
  next
    case False
    then have neg: "mantissa x < 0" by simp
    then have "float64_value x < 0"
      unfolding v by (simp add: divide_neg_pos)
    moreover have "\<lceil>float64_value x\<rceil> = - ((- mantissa x) div ?p)"
    proof -
      have "- float64_value x = of_int (- mantissa x) / of_int ?p"
        unfolding v by simp
      then have "\<lfloor>- float64_value x\<rfloor> = (- mantissa x) div ?p"
        by (simp only: floor_divide_of_int_eq)
      then show ?thesis by (simp add: ceiling_def)
    qed
    ultimately show ?thesis
      using neg by (simp add: t)
  qed
qed

subsection \<open>Properties of the registry\<close>

lemma GetClient_RegisterClient_same:
  "GetClient (RegisterClient f c k) c = Inr k"
  by (simp add: GetClient_def RegisterClient_def update_conv')

lemma GetClient_RegisterClient_other:
  "c' \<noteq> c \<Longrightarrow> GetClient (RegisterClient f c k) c' = GetClient f c'"
  by (simp add: GetClient_def RegisterClient_def update_conv')

lemma GetClient_error_iff:
  "(\<exists>e. GetClient f c = Inl e) \<longleftrightarrow> c \<notin> set (GetSupportedCurrencies f)"
  by (auto simp: GetClient_def GetSupportedCurrencies_def map_of_eq_None_iff
      split: option.splits dest: map_of_SomeD intro: rev_image_eqI)

lemma GetSupportedCurrencies_RegisterClient:
  "set (GetSupportedCurrencies (RegisterClient f c k)) = insert c (set (GetSupportedCurrencies f))"
  by (simp add: GetSupportedCurrencies_def RegisterClient_def update_conv'
      flip: dom_map_of_conv_image_fst)

lemma distinct_RegisterClient:
  "distinct (GetSupportedCurrencies f) \<Longrightarrow> distinct (GetSupportedCurrencies (RegisterClient f c k))"
  by (simp add: GetSupportedCurrencies_def RegisterClient_def distinct_update)

lemma register_all_currencies:
  "set (GetSupportedCurrencies (register_all f calls)) =
     set (GetSupportedCurrencies f) \<union> fst ` set calls"
  by (induction f calls rule: register_all.induct)
     (auto simp: GetSupportedCurrencies_RegisterClient)

lemma register_all_distinct:
  "distinct (GetSupportedCurrencies f) \<Longrightarrow> distinct (GetSupportedCurrencies (register_all f calls))"
  by (induction f calls rule: register_all.induct) (auto simp: distinct_RegisterClient)

lemma factory_after_currencies:
  "set (GetSupportedCurrencies (factory_after calls)) = fst ` set calls"
  by (simp add: factory_after_def register_all_currencies)
     (simp add: GetSupportedCurrencies_def NewBlockchainClientFactory_def)

lemma factory_after_distinct:
  "distinct (GetSupportedCurrencies (factory_after calls))"
  unfolding factory_after_def
  by (rule register_all_distinct)
     (simp add: GetSupportedCurrencies_def NewBlockchainClientFactory_def)

text \<open>
  Claim C9. Registry round trip. In every factory state (reached by any sequence of
  registrations), \<open>GetClient c\<close> right after \<open>RegisterClient c k\<close> returns \<open>k\<close>
  without error, a later registration for the same code replaces the earlier one,
  \<open>GetClient c\<close> fails exactly when no client was registered for \<open>c\<close>, and
  \<open>GetSupportedCurrencies\<close> lists exactly the registered codes, each once.
\<close>

theorem registry_round_trip:
  fixes calls :: "(string \<times> 'c) list"
  shows "GetClient (RegisterClient (factory_after calls) c k) c = Inr k
       \<and> GetClient (RegisterClient (RegisterClient (factory_after calls) c k) c k') c = Inr k'
       \<and> ((\<exists>e. GetClient (factory_after calls) c = Inl e) \<longleftrightarrow> c \<notin> fst ` set calls)
       \<and> set (GetSupportedCurrencies (factory_after calls)) = fst ` set calls
       \<and> distinct (GetSupportedCurrencies (factory_after calls))"
  by (simp add: GetClient_RegisterClient_same GetClient_error_iff
      factory_after_currencies factory_after_distinct)

theorem registry_round_trip_witness:
  "GetClient (RegisterClient (factory_after [(''BTC'', 1::nat), (''ETH'', 2)]) ''BTC'' 3) ''BTC'' = Inr 3
   \<and> (\<exists>e. GetClient (factory_after [(''BTC'', 1::nat), (''ETH'', 2)]) ''XRP'' = Inl e)
   \<and> set (GetSupportedCurrencies (factory_after [(''BTC'', 1::nat), (''ETH'', 2)])) = {''BTC'', ''ETH''}"
  using registry_round_trip [of "[(''BTC'', 1::nat), (''ETH'', 2)]" "''BTC''" 3 3]
        registry_round_trip [of "[(''BTC'', 1::nat), (''ETH'', 2)]" "''XRP''" 3 3]
  by simp

subsection \<open>Address validation before sending\<close>

text \<open>
  Claim C6. On either client, \<open>SendTransaction\<close> with a source or destination address
  that fails the client's \<open>ValidateAddress\<close> returns \<open>ErrInvalidAddress\<close> at once: no
  node call is made, nothing is signed and nothing is broadcast.
\<close>

theorem send_rejects_invalid_address:
  "(\<not> BitcoinClient_ValidateAddress b fromAddress \<or> \<not> BitcoinClient_ValidateAddress b toAddress
      \<longrightarrow> BitcoinClient_SendTransaction b fromAddress toAddress amount key
            = (Inl ErrInvalidAddress, []))
   \<and> (\<not> EthereumClient_ValidateAddress fromAddress \<or> \<not> EthereumClient_ValidateAddress toAddress
      \<longrightarrow> EthereumClient_SendTransaction e fromAddress toAddress amount key
            = (Inl ErrInvalidAddress, []))"
  by (simp add: BitcoinClient_SendTransaction_def EthereumClient_SendTransaction_def)

theorem send_rejects_invalid_address_witness:
  "\<not> BitcoinClient_ValidateAddress (bitcoin_node []) ''addr9''
   \<and> BitcoinClient_SendTransaction (bitcoin_node []) ''addr1'' ''addr9'' (decimal 1 1) ''wif1''
       = (Inl ErrInvalidAddress, [])
   \<and> \<not> EthereumClient_ValidateAddress ''0x5aAeb6053F3E94C9b9A09f33669435E7Ef1BeAe''
   \<and> EthereumClient_SendTransaction (ethereum_node 0 0 NotFound)
        ''0x5aAeb6053F3E94C9b9A09f33669435E7Ef1BeAe''
        ''0xfB6916095ca1df60bB79Ce92cE3Ea74c37c5d359'' (decimal 1 1) ''01''
       = (Inl ErrInvalidAddress, [])"
proof -
  have b: "\<not> BitcoinClient_ValidateAddress (bitcoin_node []) ''addr9''"
    by (simp add: BitcoinClient_ValidateAddress_def bitcoin_node_def)
  have e: "\<not> EthereumClient_ValidateAddress ''0x5aAeb6053F3E94C9b9A09f33669435E7Ef1BeAe''"
    by (simp add: EthereumClient_ValidateAddress_def IsHexAddress_def has0xPrefix_def)
  show ?thesis
    using b e
      send_rejects_invalid_address [where b = "bitcoin_node []" and fromAddress = "''addr1''"
        and toAddress = "''addr9''" and amount = "decimal 1 1" and key = "''wif1''"]
      send_rejects_invalid_address [where e = "ethereum_node 0 0 NotFound"
        and fromAddress = "''0x5aAeb6053F3E94C9b9A09f33669435E7Ef1BeAe''"
        and toAddress = "''0xfB6916095ca1df60bB79Ce92cE3Ea74c37c5d359''"
        and amount = "decimal 1 1" and key = "''01''"]
    by simp
qed

subsection \<open>Confirmations without a receipt\<close>

text \<open>
  Claim C10. When the node has no receipt for the transaction id (the not-found answer,
  for an unknown id as for a transaction not yet mined), \<open>GetConfirmations\<close> of the
  Ethereum client returns 0 and no error, after the one receipt lookup.
\<close>

theorem confirmations_zero_without_receipt:
  "eth_TransactionReceipt c
      (common_HexToHash c (if HasPrefix txID ''0x'' then txID else ''0x'' @ txID)) = NotFound
   \<Longrightarrow> EthereumClient_GetConfirmations c txID
       = (Inr 0, [TransactionReceiptCall
                   (common_HexToHash c (if HasPrefix txID ''0x'' then txID else ''0x'' @ txID))])"
  by (simp add: EthereumClient_GetConfirmations_def Let_def)

theorem confirmations_zero_without_receipt_witness:
  "eth_TransactionReceipt (ethereum_node 0 100 NotFound)
      (common_HexToHash (ethereum_node 0 100 NotFound)
         (if HasPrefix ''abc'' ''0x'' then ''abc'' else ''0x'' @ ''abc'')) = NotFound
   \<and> EthereumClient_GetConfirmations (ethereum_node 0 100 NotFound) ''abc''
       = (Inr 0, [TransactionReceiptCall ''0xabc''])"
proof -
  have h: "eth_TransactionReceipt (ethereum_node 0 100 NotFound)
      (common_HexToHash (ethereum_node 0 100 NotFound)
         (if HasPrefix ''abc'' ''0x'' then ''abc'' else ''0x'' @ ''abc'')) = NotFound"
    by (simp add: ethereum_node_def)
  show ?thesis
    using h confirmations_zero_without_receipt [OF h]
    by (simp add: ethereum_node_def HasPrefix_def)
qed

subsection \<open>Input selection of the Bitcoin client\<close>






text \<open>
  With outputs of 5, 3 and 1 satoshi and a payment of 6 satoshi, the three outputs do not
  cover the fee of 0.0001 BTC (10000 satoshi), whatever their order.
\<close>

lemma build_transaction_satoshi_scenario:
  "build_transaction (bitcoin_node (largest_first 100000000)) ''addr1'' (decimal 6 100000000)
      ''pay:addr2'' (largest_first 100000000)
    = Inl ErrInsufficientBalance"
  by code_simp

subsection \<open>The Bitcoin client's SendTransaction as a whole\<close>

text \<open>
  With two valid addresses, a key that decodes and a destination script,
  \<open>SendTransaction\<close> reaches the request for the unspent outputs, and that request
  panics on the nil address of its placeholder list before anything is sent to the node.
  So no call of \<open>SendTransaction\<close> returns a transaction id. (Claim C1 speaks of the calls
  that succeed.)
\<close>

lemma ListUnspentMinMaxAddresses_placeholder: "ListUnspentMinMaxAddresses c [None] = Panics"
  by (simp add: ListUnspentMinMaxAddresses_def)

lemma BitcoinClient_SendTransaction_panics:
  assumes "BitcoinClient_ValidateAddress c fromAddress"
    and "BitcoinClient_ValidateAddress c toAddress"
    and "btcutil_DecodeWIF c privateKeyWIF = Some wif"
    and "btcutil_DecodeAddress c toAddress = Some destAddr"
    and "txscript_PayToAddrScript c destAddr = Some destScript"
  shows "BitcoinClient_SendTransaction c fromAddress toAddress amount privateKeyWIF
           = (Inl (Panic ''invalid memory address or nil pointer dereference''), [])"
  using assms
  by (simp add: BitcoinClient_SendTransaction_def ListUnspentMinMaxAddresses_placeholder)

lemma BitcoinClient_SendTransaction_never_succeeds:
  "fst (BitcoinClient_SendTransaction c fromAddress toAddress amount privateKeyWIF) \<noteq> Inr txHash"
  by (simp add: BitcoinClient_SendTransaction_def ListUnspentMinMaxAddresses_placeholder
      split: option.splits)

lemma BitcoinClient_SendTransaction_sample:
  "BitcoinClient_SendTransaction (bitcoin_node [utxo ''t1'' 0 ''addr1'' (decimal 1 1)])
      ''addr1'' ''addr2'' (decimal 29 100) ''wif1''
    = (Inl (Panic ''invalid memory address or nil pointer dereference''), [])"
  by code_simp

text \<open>
  The transaction that the code after that request builds from one unspent output of
  1 BTC for a payment of 0.29 BTC: 28999999 satoshi to the recipient and 70990000
  satoshi of change.
\<close>

lemma build_transaction_sample:
  "build_transaction (bitcoin_node []) ''addr1'' (decimal 29 100) ''pay:addr2''
      [utxo ''t1'' 0 ''addr1'' (decimal 1 1)]
    = Inr \<lparr>TxIn = [\<lparr>PreviousOutPoint = \<lparr>Hash = ''t1'', Index = 0\<rparr>, SignatureScript = []\<rparr>],
           TxOut =
             [\<lparr>Value = 28999999, PkScript = ''pay:addr2''\<rparr>,
              \<lparr>Value = 70990000, PkScript = ''pay:addr1''\<rparr>]\<rparr>"
  by code_simp

subsection \<open>Conversion to subunits\<close>

text \<open>
  For an amount of \<open>n\<close> whole satoshi, given as the float64 nearest to \<open>n / 100000000\<close>,
  the satoshi conversion returns \<open>n\<close> or \<open>n - 1\<close>: both roundings together move the
  product by less than one, and the truncation can then drop one satoshi.
\<close>

lemma rounds_to_relative:
  assumes "rounds_to x r" and "x \<noteq> 0"
  shows "\<bar>x - float64_value r\<bar> \<le> \<bar>float64_value r\<bar> / 2 ^ 53"
proof -
  from assms have near: "\<bar>x - float64_value r\<bar> \<le> 2 powi exponent r / 2"
    and m: "2 ^ 52 \<le> \<bar>mantissa r\<bar>"
    by (auto simp: rounds_to_def)
  have pe: "(0 :: rat) < 2 powi exponent r" by simp
  from m have "(of_int (2 ^ 52) :: rat) \<le> of_int \<bar>mantissa r\<bar>"
    by (simp only: of_int_le_iff)
  then have "(2 ^ 52 :: rat) \<le> \<bar>of_int (mantissa r)\<bar>" by simp
  then have "(2 ^ 52 :: rat) * 2 powi exponent r \<le> \<bar>of_int (mantissa r)\<bar> * 2 powi exponent r"
    using pe by (intro mult_right_mono) simp_all
  also have "\<dots> = \<bar>float64_value r\<bar>"
    using pe by (simp add: float64_value_def abs_mult)
  finally have "(2 ^ 52 :: rat) * 2 powi exponent r \<le> \<bar>float64_value r\<bar>" .
  then have "(2 :: rat) powi exponent r / 2 \<le> \<bar>float64_value r\<bar> / 2 ^ 53"
    by simp
  with near show ?thesis by simp
qed

lemma float64_value_satoshi_per_btc: "float64_value satoshi_per_btc = 100000000"
proof -
  have s: "satoshi_per_btc = Float64 6710886400000000 (- 26)"
    by code_simp
  have "(2 :: rat) powi (- 26) = 1 / 2 ^ 26"
    by (simp add: power_int_minus field_simps)
  then show ?thesis
    unfolding s by (simp add: float64_value_def)
qed


lemma btc_to_satoshi_of_whole_satoshi:
  assumes "0 \<le> n" and "n \<le> 2 ^ 51"
  shows "btc_to_satoshi (decimal n 100000000) = n
       \<or> btc_to_satoshi (decimal n 100000000) = n - 1"
proof (cases "n = 0")
  case True
  have "btc_to_satoshi (decimal 0 100000000) = 0" by code_simp
  with True show ?thesis by simp
next
  case False
  with assms have n1: "1 \<le> n" by simp
  let ?a = "decimal n 100000000"
  let ?p = "float64_mul ?a satoshi_per_btc"
  define x v q where "x = (of_int n :: rat) / 100000000"
    and "v = float64_value ?a" and "q = float64_value ?p"
  from n1 have "(of_int 1 :: rat) \<le> of_int n"
    by (simp only: of_int_le_iff)
  moreover from assms(2) have "(of_int n :: rat) \<le> of_int (2 ^ 51)"
    by (simp only: of_int_le_iff)
  ultimately have nr: "(1 :: rat) \<le> of_int n" "(of_int n :: rat) \<le> 2251799813685248"
    by simp_all
  have "rounds_to (of_int n / of_int 100000000) ?a"
    unfolding decimal_def by (rule round_to_float64_rounds) simp
  then have ra: "rounds_to x ?a" by (simp add: x_def)
  have x0: "x \<noteq> 0" using nr by (simp add: x_def)
  from rounds_to_relative [OF ra x0]
  have e1: "\<bar>x - v\<bar> \<le> \<bar>v\<bar> / 9007199254740992" by (simp add: v_def)
  have xpos: "0 < x" using nr by (simp add: x_def)
  from e1 xpos have vpos: "0 < v" by linarith
  have rp: "rounds_to (v * 100000000) ?p"
    using float64_mul_rounds [of ?a satoshi_per_btc]
    by (simp add: v_def float64_value_satoshi_per_btc)
  have "v * 100000000 \<noteq> 0" using vpos by simp
  from rounds_to_relative [OF rp this]
  have e2: "\<bar>v * 100000000 - q\<bar> \<le> \<bar>q\<bar> / 9007199254740992" by (simp add: q_def)
  from e2 vpos have qpos: "0 < q" by linarith
  have xn: "x * 100000000 = of_int n" by (simp add: x_def)
  have lo: "of_int n - 1 < q" and hi: "q < of_int n + 1"
    using e1 e2 vpos qpos xn nr by linarith+
  define f where "f = \<lfloor>q\<rfloor>"
  have t: "truncate_to_int ?p = f"
    using qpos by (simp add: truncate_to_int_value q_def f_def)
  have fl: "f = n \<or> f = n - 1"
  proof (cases "q < of_int n")
    case True
    with lo have "\<lfloor>q\<rfloor> = n - 1"
      by (intro floor_unique) simp_all
    then show ?thesis by (simp add: f_def)
  next
    case False
    with hi have "\<lfloor>q\<rfloor> = n"
      by (intro floor_unique) simp_all
    then show ?thesis by (simp add: f_def)
  qed
  with n1 assms(2) have "- (2 ^ 63) \<le> f \<and> f < 2 ^ 63"
    by auto
  then have "btc_to_satoshi ?a = f"
    by (simp add: btc_to_satoshi_def int64_of_float64_def t Let_def)
  with fl show ?thesis by simp
qed

text \<open>
  Claim C2. The satoshi conversion of the Bitcoin client truncates the float64 product
  \<open>amount * 100000000\<close>: 0.00000001 BTC gives 1 satoshi, but 0.29 BTC gives 28999999
  satoshi, one less than 29000000, and the amount that 28999999 satoshi stand for is
  below the original 0.29 BTC. The wei conversion of the Ethereum client rounds the
  product to 53 bits: 0.07 ETH gives 70000000000000008 wei.
\<close>

theorem subunit_conversion_at_sample_amounts:
  "btc_to_satoshi (decimal 1 100000000) = 1
   \<and> btc_to_satoshi (decimal 29 100) = 28999999
   \<and> float64_less (decimal 28999999 100000000) (decimal 29 100)
   \<and> ether_to_wei (decimal 7 100) = 70000000000000008"
  by code_simp

subsection \<open>Balance of the Ethereum sender\<close>

lemma EthereumClient_SendTransaction_ignores_balance:
  "EthereumClient_SendTransaction (c\<lparr>eth_BalanceAt := b\<rparr>) fromAddress toAddress amount key
     = EthereumClient_SendTransaction c fromAddress toAddress amount key"
  by (simp add: EthereumClient_SendTransaction_def Let_def split: option.splits)

text \<open>
  Claim C4. The sender's balance is 0 wei and the transfer costs 1 ETH plus gas. The
  Ethereum client never reads the balance: it fetches nonce and gas price, signs, and
  submits the signed transaction to the node; the node's refusal comes back as the
  error \<open>failed to send transaction\<close>, not as \<open>ErrInsufficientBalance\<close>.
\<close>

theorem send_with_empty_balance:
  "eth_BalanceAt (ethereum_node 0 100 NotFound) sample_address = Some 0
   \<and> EthereumClient_SendTransaction (ethereum_node 0 100 NotFound)
        ''0x5aAeb6053F3E94C9b9A09f33669435E7Ef1BeAed''
        ''0xfB6916095ca1df60bB79Ce92cE3Ea74c37c5d359'' (decimal 1 1) ''01''
     = (Inl (ErrMsg ''failed to send transaction''),
        [PendingNonceAtCall sample_address, SuggestGasPriceCall,
         SignTxMade
           \<lparr>Nonce = 0, To = HexToAddress ''0xfB6916095ca1df60bB79Ce92cE3Ea74c37c5d359'',
            Wei = 1000000000000000000, GasLimit = 21000, GasPrice = 1000000000\<rparr>,
         SendTransactionCall
           \<lparr>Unsigned =
              \<lparr>Nonce = 0, To = HexToAddress ''0xfB6916095ca1df60bB79Ce92cE3Ea74c37c5d359'',
               Wei = 1000000000000000000, GasLimit = 21000, GasPrice = 1000000000\<rparr>,
            Signature = ''sig''\<rparr>])"
  by code_simp

theorem send_with_empty_balance_witness:
  "fst (EthereumClient_SendTransaction (ethereum_node 0 100 NotFound)
        ''0x5aAeb6053F3E94C9b9A09f33669435E7Ef1BeAed''
        ''0xfB6916095ca1df60bB79Ce92cE3Ea74c37c5d359'' (decimal 1 1) ''01'')
     = Inl (ErrMsg ''failed to send transaction'')"
  using send_with_empty_balance by simp

subsection \<open>Confirmation counts\<close>

lemma unat_sub_of_nat:
  fixes cur :: "64 word"
  assumes "b \<le> unat cur"
  shows "unat (cur - word_of_nat b) = unat cur - b"
proof -
  from assms have u: "unat (word_of_nat b :: 64 word) = b"
    by (rule le_unat_uoi)
  with assms have "word_of_nat b \<le> cur"
    by (simp add: word_le_nat_alt)
  then show ?thesis
    using u by (simp add: unat_sub)
qed

text \<open>
  When the node's current height is not below the block of the receipt, the Ethereum
  client returns the difference of the two heights.
\<close>

lemma EthereumClient_GetConfirmations_difference:
  assumes "eth_TransactionReceipt e
       (common_HexToHash e (if HasPrefix txID ''0x'' then txID else ''0x'' @ txID)) = Found receipt"
    and "BlockNumber receipt = Some blockNumber"
    and "eth_BlockNumber e = Some currentBlock"
    and "blockNumber \<le> unat currentBlock"
  shows "\<exists>n. fst (EthereumClient_GetConfirmations e txID) = Inr n
           \<and> unat n = unat currentBlock - blockNumber"
  using assms
  by (simp add: EthereumClient_GetConfirmations_def Let_def unat_sub_of_nat)

text \<open>
  Claim C8. The node reports the current height 5 and a receipt in block 7 (a node that
  lags behind the one that served the receipt). \<open>GetConfirmations\<close> of the Ethereum
  client subtracts the two unsigned heights without comparing them and returns
  18446744073709551614 confirmations, which is neither 5 - 7 nor 0.
\<close>

theorem confirmations_below_receipt_block:
  "EthereumClient_GetConfirmations
      (ethereum_node 0 5 (Found \<lparr>BlockNumber = Some 7, Status = 1\<rparr>)) ''abc''
    = (Inr 18446744073709551614, [TransactionReceiptCall ''0xabc'', BlockNumberCall])
   \<and> uint (18446744073709551614 :: 64 word) \<noteq> 5 - 7"
  by code_simp

subsection \<open>Address strings of the Ethereum client\<close>

lemma isHexCharacter_iff: "isHexCharacter ch \<longleftrightarrow> ch \<in> set ''0123456789abcdefABCDEF''"
  by (auto simp: isHexCharacter_def)

lemma has0xPrefix_iff: "has0xPrefix s \<longleftrightarrow> (\<exists>rest. s = ''0x'' @ rest \<or> s = ''0X'' @ rest)"
  by (auto simp: has0xPrefix_def split: list.splits)

lemma IsHexAddress_format: "IsHexAddress a \<longleftrightarrow> hex_address_format a"
proof
  assume v: "IsHexAddress a"
  show "hex_address_format a"
  proof (cases "has0xPrefix a")
    case True
    then obtain rest where "a = ''0x'' @ rest \<or> a = ''0X'' @ rest"
      by (auto simp: has0xPrefix_iff)
    moreover from this v True have "length rest = 40 \<and> list_all isHexCharacter rest"
      by (auto simp: IsHexAddress_def isHex_def)
    ultimately show ?thesis
      unfolding hex_address_format_def isHexCharacter_iff [abs_def] by blast
  next
    case False
    with v have "length a = 40 \<and> list_all isHexCharacter a"
      by (simp add: IsHexAddress_def isHex_def)
    then show ?thesis
      unfolding hex_address_format_def isHexCharacter_iff [abs_def] by blast
  qed
next
  assume "hex_address_format a"
  then obtain body where a: "a = body \<or> a = ''0x'' @ body \<or> a = ''0X'' @ body"
    and len: "length body = 40" and hex: "list_all isHexCharacter body"
    unfolding hex_address_format_def isHexCharacter_iff [abs_def] by blast
  have plain: "\<not> has0xPrefix body"
  proof
    assume "has0xPrefix body"
    then obtain rest where "body = ''0x'' @ rest \<or> body = ''0X'' @ rest"
      by (auto simp: has0xPrefix_iff)
    with hex show False
      by (auto simp: isHexCharacter_def)
  qed
  from a show "IsHexAddress a"
  proof (elim disjE)
    assume "a = body"
    with plain len hex show ?thesis by (simp add: IsHexAddress_def isHex_def)
  next
    assume "a = ''0x'' @ body"
    with len hex show ?thesis by (simp add: IsHexAddress_def isHex_def has0xPrefix_def)
  next
    assume "a = ''0X'' @ body"
    with len hex show ?thesis by (simp add: IsHexAddress_def isHex_def has0xPrefix_def)
  qed
qed

lemma isHexCharacter_upper_case: "isHexCharacter (upper_case ch) = isHexCharacter ch"
  by (auto simp: isHexCharacter_def upper_case_def)

lemma has0xPrefix_upper_case: "has0xPrefix (map upper_case s) = has0xPrefix s"
  by (auto simp: has0xPrefix_def upper_case_def split: list.splits)

lemma IsHexAddress_upper_case: "IsHexAddress (map upper_case a) = IsHexAddress a"
  by (simp add: IsHexAddress_def isHex_def has0xPrefix_upper_case drop_map list_all_iff
      isHexCharacter_upper_case)

lemma hexval_hexdigit:
  assumes "n < 16"
  shows "hexval (hexdigit n) = Some n" and "hexval (upper_case (hexdigit n)) = Some n"
proof -
  from assms consider "n = 0" | "n = 1" | "n = 2" | "n = 3" | "n = 4" | "n = 5" | "n = 6"
    | "n = 7" | "n = 8" | "n = 9" | "n = 10" | "n = 11" | "n = 12" | "n = 13" | "n = 14"
    | "n = 15"
    by atomize_elim arith
  then have "hexval (hexdigit n) = Some n \<and> hexval (upper_case (hexdigit n)) = Some n"
    by cases (simp_all add: hexdigit_def hexval_def upper_case_def)
  then show "hexval (hexdigit n) = Some n" and "hexval (upper_case (hexdigit n)) = Some n"
    by simp_all
qed

lemma length_checksum_case: "length (checksum_case hash i s) = length s"
  by (induction s arbitrary: i) simp_all

lemma length_hex_Encode: "length (hex_Encode bs) = 2 * length bs"
  by (induction bs) (simp_all add: hex_Encode_def)

lemma Hex2Bytes_checksum_case:
  "list_all (\<lambda>b. b < 256) bs \<Longrightarrow> Hex2Bytes (checksum_case hash i (hex_Encode bs)) = bs"
proof (induction bs arbitrary: i)
  case Nil
  then show ?case by (simp add: hex_Encode_def)
next
  case (Cons b bs)
  then have "b < 16 * 16" by simp
  then have b: "b div 16 < 16" "b mod 16 < 16"
    by (simp_all add: less_mult_imp_div_less)
  have enc: "hex_Encode (b # bs) = hexdigit (b div 16) # hexdigit (b mod 16) # hex_Encode bs"
    by (simp add: hex_Encode_def)
  from Cons have IH: "Hex2Bytes (checksum_case hash (Suc (Suc i)) (hex_Encode bs)) = bs"
    by simp
  show ?case
    unfolding enc using IH hexval_hexdigit [OF b(1)] hexval_hexdigit [OF b(2)]
    by simp
qed

lemma HexToAddress_Address_Hex:
  assumes "address_bytes a"
  shows "HexToAddress (Address_Hex keccak a) = a"
proof -
  let ?body = "checksum_case (keccak (hex_Encode a)) 0 (hex_Encode a)"
  from assms have len: "length a = 20" and bytes: "list_all (\<lambda>b. b < 256) a"
    by (simp_all add: address_bytes_def)
  have hex: "Address_Hex keccak a = ''0x'' @ ?body"
    by (simp add: Address_Hex_def Let_def)
  have l: "length ?body = 40"
    by (simp add: length_checksum_case length_hex_Encode len)
  have "FromHex (''0x'' @ ?body) = Hex2Bytes ?body"
    by (simp add: FromHex_def has0xPrefix_def l)
  also have "\<dots> = a"
    using bytes by (rule Hex2Bytes_checksum_case)
  finally show ?thesis
    by (simp add: HexToAddress_def hex BytesToAddress_def len)
qed


lemma EthereumClient_ValidateAddress_format:
  "EthereumClient_ValidateAddress a \<longleftrightarrow> hex_address_format a"
  by (simp add: EthereumClient_ValidateAddress_def IsHexAddress_format)

lemma EthereumClient_ValidateAddress_upper_case:
  "EthereumClient_ValidateAddress (map upper_case a) = EthereumClient_ValidateAddress a"
  by (simp add: EthereumClient_ValidateAddress_def IsHexAddress_upper_case)

text \<open>
  Claim C5. \<^verbatim>\<open>0x5aAeb6053F3E94C9b9A09f33669435E7Ef1BeAed\<close> is the checksummed text of
  the sample address. The string \<^verbatim>\<open>0x5AaeB6053F3E94C9b9A09f33669435E7Ef1BeAed\<close> has three
  of its letters in the other case: it denotes the same 20 bytes, it is not their
  checksummed text, and \<open>ValidateAddress\<close> of the Ethereum client accepts it like the
  checksummed one.
\<close>

theorem flipped_checksum_is_accepted:
  "EthereumClient_ValidateAddress ''0x5AaeB6053F3E94C9b9A09f33669435E7Ef1BeAed''
   \<and> EthereumClient_ValidateAddress ''0x5aAeb6053F3E94C9b9A09f33669435E7Ef1BeAed''
   \<and> HexToAddress ''0x5AaeB6053F3E94C9b9A09f33669435E7Ef1BeAed'' = sample_address
   \<and> HexToAddress ''0x5aAeb6053F3E94C9b9A09f33669435E7Ef1BeAed'' = sample_address
   \<and> Address_Hex sample_keccak sample_address = ''0x5aAeb6053F3E94C9b9A09f33669435E7Ef1BeAed''
   \<and> ''0x5AaeB6053F3E94C9b9A09f33669435E7Ef1BeAed''
       \<noteq> Address_Hex sample_keccak sample_address"
  by code_simp

subsection \<open>Key and sending address of the Ethereum client\<close>

lemma EthereumClient_SendTransaction_key_check:
  assumes "EthereumClient_ValidateAddress fromAddress"
    and "EthereumClient_ValidateAddress toAddress"
    and "hexutil_Decode c
           (if HasPrefix privateKeyHex ''0x'' then privateKeyHex else ''0x'' @ privateKeyHex)
         = Some bytes"
    and "crypto_ToECDSA c bytes = Some key"
  shows "EthereumClient_SendTransaction c fromAddress toAddress amount privateKeyHex =
     (let address = crypto_PubkeyToAddress c key
      in if Address_Hex (crypto_Keccak256 c) address \<noteq> fromAddress
         then (Inl (ErrMsg ''private key does not match from address''), [])
         else
        (case eth_PendingNonceAt c address of
          None \<Rightarrow> (Inl (ErrMsg ''failed to get nonce''), [PendingNonceAtCall address])
        | Some nonce \<Rightarrow>
        (case eth_SuggestGasPrice c of
          None \<Rightarrow> (Inl (ErrMsg ''failed to get gas price''),
                    [PendingNonceAtCall address, SuggestGasPriceCall])
        | Some gasPrice \<Rightarrow>
        (let valueInt = ether_to_wei amount;
             toAddress' = HexToAddress toAddress;
             tx = \<lparr>Nonce = nonce,
                   To = HexToAddress (Address_Hex (crypto_Keccak256 c) toAddress'),
                   Wei = valueInt, GasLimit = 21000, GasPrice = gasPrice\<rparr>
         in case types_SignTx c tx key of
              None \<Rightarrow> (Inl (ErrMsg ''failed to sign transaction''),
                        [PendingNonceAtCall address, SuggestGasPriceCall, SignTxMade tx])
            | Some sig \<Rightarrow>
                (let signedTx = \<lparr>Unsigned = tx, Signature = sig\<rparr>;
                     evs = [PendingNonceAtCall address, SuggestGasPriceCall, SignTxMade tx,
                            SendTransactionCall signedTx]
                 in if eth_SendTransaction c signedTx
                    then (Inr (tx_Hash_Hex c signedTx), evs)
                    else (Inl (ErrMsg ''failed to send transaction''), evs))))))"
  using assms by (simp add: EthereumClient_SendTransaction_def Let_def)

text \<open>
  The check compares texts. When \<open>fromAddress\<close> is the text \<^verbatim>\<open>Address.Hex()\<close> of the key's
  address the call goes on to the nonce and, with nonce and gas price at hand, to the
  signature; for every other \<open>fromAddress\<close>, and so for every one that denotes another
  address, it ends with the mismatch error before any node call.
\<close>

lemma key_check_compares_address_text:
  assumes "EthereumClient_ValidateAddress fromAddress"
    and "EthereumClient_ValidateAddress toAddress"
    and "hexutil_Decode c
           (if HasPrefix privateKeyHex ''0x'' then privateKeyHex else ''0x'' @ privateKeyHex)
         = Some bytes"
    and "crypto_ToECDSA c bytes = Some key"
  shows "(fromAddress = Address_Hex (crypto_Keccak256 c) (crypto_PubkeyToAddress c key) \<longrightarrow>
           (\<exists>r evs. EthereumClient_SendTransaction c fromAddress toAddress amount privateKeyHex
                       = (r, PendingNonceAtCall (crypto_PubkeyToAddress c key) # evs)
                 \<and> (eth_PendingNonceAt c (crypto_PubkeyToAddress c key) \<noteq> None
                      \<and> eth_SuggestGasPrice c \<noteq> None
                     \<longrightarrow> (\<exists>tx. SignTxMade tx \<in> set evs))))
       \<and> (fromAddress \<noteq> Address_Hex (crypto_Keccak256 c) (crypto_PubkeyToAddress c key) \<longrightarrow>
            EthereumClient_SendTransaction c fromAddress toAddress amount privateKeyHex
              = (Inl (ErrMsg ''private key does not match from address''), []))
       \<and> (address_bytes (crypto_PubkeyToAddress c key)
            \<and> HexToAddress fromAddress \<noteq> crypto_PubkeyToAddress c key \<longrightarrow>
            EthereumClient_SendTransaction c fromAddress toAddress amount privateKeyHex
              = (Inl (ErrMsg ''private key does not match from address''), []))"
proof (intro conjI impI)
  note run = EthereumClient_SendTransaction_key_check [OF assms, of amount]
  {
    assume "fromAddress = Address_Hex (crypto_Keccak256 c) (crypto_PubkeyToAddress c key)"
    then show "\<exists>r evs. EthereumClient_SendTransaction c fromAddress toAddress amount privateKeyHex
                       = (r, PendingNonceAtCall (crypto_PubkeyToAddress c key) # evs)
                 \<and> (eth_PendingNonceAt c (crypto_PubkeyToAddress c key) \<noteq> None
                      \<and> eth_SuggestGasPrice c \<noteq> None
                     \<longrightarrow> (\<exists>tx. SignTxMade tx \<in> set evs))"
      unfolding run by (auto simp: Let_def split: option.splits)
  next
    assume "fromAddress \<noteq> Address_Hex (crypto_Keccak256 c) (crypto_PubkeyToAddress c key)"
    then show "EthereumClient_SendTransaction c fromAddress toAddress amount privateKeyHex
              = (Inl (ErrMsg ''private key does not match from address''), [])"
      unfolding run by (auto simp: Let_def)
  next
    assume a: "address_bytes (crypto_PubkeyToAddress c key)
            \<and> HexToAddress fromAddress \<noteq> crypto_PubkeyToAddress c key"
    then have "fromAddress \<noteq> Address_Hex (crypto_Keccak256 c) (crypto_PubkeyToAddress c key)"
      using HexToAddress_Address_Hex [of "crypto_PubkeyToAddress c key" "crypto_Keccak256 c"]
      by auto
    then show "EthereumClient_SendTransaction c fromAddress toAddress amount privateKeyHex
              = (Inl (ErrMsg ''private key does not match from address''), [])"
      unfolding run by (auto simp: Let_def)
  }
qed

text \<open>
  Claim C7. The key \<open>[1]\<close> owns the sample address, and \<open>fromAddress\<close> is that address
  written in lower case: a valid address that denotes the key's own address. The
  comparison of \<^verbatim>\<open>address.Hex()\<close> with the string \<open>fromAddress\<close> fails all the same, and
  the call ends with \<open>private key does not match from address\<close>.
\<close>

theorem lower_case_sender_is_rejected:
  "EthereumClient_ValidateAddress ''0x5aaeb6053f3e94c9b9a09f33669435e7ef1beaed''
   \<and> HexToAddress ''0x5aaeb6053f3e94c9b9a09f33669435e7ef1beaed''
       = crypto_PubkeyToAddress (ethereum_node (2 * 10 ^ 18) 100 NotFound) [1]
   \<and> crypto_ToECDSA (ethereum_node (2 * 10 ^ 18) 100 NotFound) [1] = Some [1]
   \<and> hexutil_Decode (ethereum_node (2 * 10 ^ 18) 100 NotFound) ''0x01'' = Some [1]
   \<and> EthereumClient_SendTransaction (ethereum_node (2 * 10 ^ 18) 100 NotFound)
        ''0x5aaeb6053f3e94c9b9a09f33669435e7ef1beaed''
        ''0xfB6916095ca1df60bB79Ce92cE3Ea74c37c5d359'' (decimal 1 1) ''01''
       = (Inl (ErrMsg ''private key does not match from address''), [])"
  by code_simp

theorem lower_case_sender_is_rejected_witness:
  "fst (EthereumClient_SendTransaction (ethereum_node (2 * 10 ^ 18) 100 NotFound)
        ''0x5aaeb6053f3e94c9b9a09f33669435e7ef1beaed''
        ''0xfB6916095ca1df60bB79Ce92cE3Ea74c37c5d359'' (decimal 1 1) ''01'')
     = Inl (ErrMsg ''private key does not match from address'')"
  using lower_case_sender_is_rejected by simp

end
